theory Spec2Isabelle
  imports Main
begin

section \<open>Python values\<close>

text \<open>
  A Python \<open>str\<close> is a sequence of Unicode code points, and \<open>len\<close> counts code points.
  A text is therefore a list of code points; \<open>u\<close> embeds an ASCII literal.
\<close>

type_synonym ustr = "nat list"

definition u :: "string \<Rightarrow> ustr" where
  "u s = map of_char s"

text \<open>
  The character classes that the source takes from the interpreter's Unicode database
  (the decimal digits of \<open>\d\<close> and \<open>int\<close>, \<open>str.isalnum\<close>, \<open>str.lower\<close>) are tables
  that are not part of the repository. The functions below take them as a parameter.
  \<open>decimal c\<close> is the digit value of a code point of category Nd.
\<close>

record ucd =
  decimal :: "nat \<Rightarrow> nat option"
  alnum :: "nat \<Rightarrow> bool"
  lower :: "ustr \<Rightarrow> ustr"

definition isdigit :: "ucd \<Rightarrow> nat \<Rightarrow> bool" where
  "isdigit U c = (decimal U c \<noteq> None)"

text \<open>The ASCII block of these tables, for running the functions on ASCII texts.\<close>

definition ascii_ucd :: ucd where
  "ascii_ucd = \<lparr>
     decimal = (\<lambda>c. if 48 \<le> c \<and> c \<le> 57 then Some (c - 48) else None),
     alnum = (\<lambda>c. (48 \<le> c \<and> c \<le> 57) \<or> (65 \<le> c \<and> c \<le> 90) \<or> (97 \<le> c \<and> c \<le> 122)),
     lower = map (\<lambda>c. if 65 \<le> c \<and> c \<le> 90 then c + 32 else c) \<rparr>"

text \<open>
  The white space of \<open>str.strip()\<close> and of \<open>\s\<close> in a \<open>str\<close> pattern: the code points
  for which \<open>str.isspace\<close> holds.
\<close>

definition isspace :: "nat \<Rightarrow> bool" where
  "isspace c = ((9 \<le> c \<and> c \<le> 13) \<or> (28 \<le> c \<and> c \<le> 32) \<or> c = 133 \<or> c = 160
     \<or> c = 5760 \<or> (8192 \<le> c \<and> c \<le> 8202) \<or> c = 8232 \<or> c = 8233 \<or> c = 8239
     \<or> c = 8287 \<or> c = 12288)"

definition strip :: "ustr \<Rightarrow> ustr" where
  "strip s = rev (dropWhile isspace (rev (dropWhile isspace s)))"

definition startswith :: "'a list \<Rightarrow> 'a list \<Rightarrow> bool" where
  "startswith s p = (take (length p) s = p)"

text \<open>\<open>contains sub s\<close> is Python's \<open>sub in s\<close>.\<close>

fun contains :: "'a list \<Rightarrow> 'a list \<Rightarrow> bool" where
  "contains sub [] = (sub = [])"
| "contains sub (c # s) = (startswith (c # s) sub \<or> contains sub s)"

text \<open>
  The values stored in the dictionaries the scraper returns. A float is kept as the text
  it was parsed from: \<open>PFloatOf t\<close> is \<open>float(t)\<close>.
\<close>

datatype pyval =
    PStr ustr
  | PInt int
  | PFloatOf ustr
  | PList "ustr list"
  | PDict "(string \<times> pyval) list"

type_synonym pydict = "string \<rightharpoonup> pyval"

section \<open>The rendered page\<close>

datatype exn =
    TimeoutException
  | NoSuchElementException
  | WebDriverException
  | TypeError
  | ValueError
  | KeyError
  | AttributeError
  | RequestException

text \<open>
  A call that returns or raises is a value of \<open>exn + 'a\<close>. \<open>and_then m f\<close> runs \<open>m\<close> and
  continues with \<open>f\<close> on what it returns; an exception of \<open>m\<close> is passed on.
\<close>

definition and_then :: "exn + 'a \<Rightarrow> ('a \<Rightarrow> exn + 'b) \<Rightarrow> exn + 'b" where
  "and_then m f = (case m of Inl x \<Rightarrow> Inl x | Inr v \<Rightarrow> f v)"

text \<open>
  A WebElement of the rendered document, as the scraper observes it: reading \<open>.text\<close>,
  \<open>get_attribute(name)\<close> (\<open>None\<close> for an absent attribute) and
  \<open>find_elements(By.CSS_SELECTOR, selector)\<close> below it, each of which returns or raises.
  The driver itself is the root element of the current document.
\<close>

datatype element = Element
  (el_text: "exn + ustr")
  (el_attr: "string \<Rightarrow> exn + ustr option")
  (el_find: "string \<Rightarrow> exn + element list")

text \<open>\<open>element.find_element\<close>: the first match, \<open>NoSuchElementException\<close> without one.\<close>

definition find_element :: "element \<Rightarrow> string \<Rightarrow> exn + element" where
  "find_element e sel =
     (case el_find e sel of
        Inl x \<Rightarrow> Inl x
      | Inr [] \<Rightarrow> Inl NoSuchElementException
      | Inr (x # _) \<Rightarrow> Inr x)"

text \<open>
  \<open>WebDriverWait(driver, t).until(EC.presence_of_element_located(...))\<close> on a document
  that no longer changes: polling ignores \<open>NoSuchElementException\<close> and ends in
  \<open>TimeoutException\<close>; any other exception of the driver is raised as it is.
\<close>

definition wait_presence :: "element \<Rightarrow> string \<Rightarrow> exn + element" where
  "wait_presence doc sel =
     (case find_element doc sel of
        Inl x \<Rightarrow> (if x = NoSuchElementException then Inl TimeoutException else Inl x)
      | Inr e \<Rightarrow> Inr e)"

definition safe_find_element :: "element \<Rightarrow> string \<Rightarrow> exn + element option" where
  "safe_find_element doc sel =
     (case wait_presence doc sel of
        Inr e \<Rightarrow> Inr (Some e)
      | Inl x \<Rightarrow> (if x = TimeoutException then Inr None else Inl x))"

definition safe_find_elements :: "element \<Rightarrow> string \<Rightarrow> exn + element list" where
  "safe_find_elements doc sel =
     (case wait_presence doc sel of
        Inr _ \<Rightarrow> (case el_find doc sel of
                    Inl x \<Rightarrow> (if x = TimeoutException then Inr [] else Inl x)
                  | Inr es \<Rightarrow> Inr es)
      | Inl x \<Rightarrow> (if x = TimeoutException then Inr [] else Inl x))"

fun safe_get_text :: "element option \<Rightarrow> ustr" where
  "safe_get_text None = []"
| "safe_get_text (Some e) =
     (case el_text e of
        Inr t \<Rightarrow> strip t
      | Inl _ \<Rightarrow> (case el_attr e ''textContent'' of
                    Inr (Some t) \<Rightarrow> strip t
                  | _ \<Rightarrow> []))"

fun safe_get_attribute :: "element option \<Rightarrow> string \<Rightarrow> ustr" where
  "safe_get_attribute None a = []"
| "safe_get_attribute (Some e) a =
     (case el_attr e a of
        Inr (Some v) \<Rightarrow> v
      | _ \<Rightarrow> [])"

section \<open>Price and currency\<close>

text \<open>\<open>re.sub(r'[^\d.]', '', s)\<close>: what is kept are the decimal digits and the full stops.\<close>

definition digits_and_dots :: "ucd \<Rightarrow> ustr \<Rightarrow> ustr" where
  "digits_and_dots U s = filter (\<lambda>c. isdigit U c \<or> c = 46) s"

text \<open>
  The branch of \<open>_extract_price_info\<close> that runs on a non-empty price text. The symbols
  are \<open>$\<close>, the rupee sign U+20B9, the pound sign U+00A3 and the euro sign U+20AC.
  The log line after it reads the key \<open>currency\<close>, which the record of
  \<open>extract_product_details\<close> has from the start.
\<close>

definition set_price :: "ucd \<Rightarrow> ustr \<Rightarrow> pydict \<Rightarrow> pydict" where
  "set_price U price_text product_data =
     (if contains (u ''$'') price_text then
        product_data(''currency'' \<mapsto> PStr (u ''USD''),
                     ''price'' \<mapsto> PStr (digits_and_dots U price_text))
      else if contains [8377] price_text then
        product_data(''currency'' \<mapsto> PStr (u ''INR''),
                     ''price'' \<mapsto> PStr (digits_and_dots U price_text))
      else if contains [163] price_text then
        product_data(''currency'' \<mapsto> PStr (u ''GBP''),
                     ''price'' \<mapsto> PStr (digits_and_dots U price_text))
      else if contains [8364] price_text then
        product_data(''currency'' \<mapsto> PStr (u ''EUR''),
                     ''price'' \<mapsto> PStr (digits_and_dots U price_text))
      else
        product_data(''price'' \<mapsto> PStr (digits_and_dots U price_text)))"

definition price_selectors :: "string list" where
  "price_selectors =
     [''.a-price-whole'', ''.a-offscreen'', ''#apex_desktop .a-price .a-offscreen'',
      ''#price_inside_buybox'', ''.a-price .a-offscreen'']"

fun price_loop :: "ucd \<Rightarrow> element \<Rightarrow> string list \<Rightarrow> pydict \<Rightarrow> exn + pydict" where
  "price_loop U doc [] product_data = Inr product_data"
| "price_loop U doc (selector # rest) product_data =
     (case safe_find_element doc selector of
        Inl x \<Rightarrow> Inl x
      | Inr None \<Rightarrow> price_loop U doc rest product_data
      | Inr (Some e) \<Rightarrow>
          (let price_text = safe_get_text (Some e) in
           if price_text \<noteq> [] then Inr (set_price U price_text product_data)
           else price_loop U doc rest product_data))"

definition extract_price_info :: "ucd \<Rightarrow> element \<Rightarrow> pydict \<Rightarrow> exn + pydict" where
  "extract_price_info U doc product_data = price_loop U doc price_selectors product_data"

section \<open>Numbers in texts\<close>

text \<open>
  \<open>int(s)\<close> on the texts the scraper passes to it, which are runs of decimal digits:
  \<open>ValueError\<close> on the empty text, the decimal value otherwise. The limit that newer
  interpreters put on the number of digits is left out.
\<close>

definition py_int :: "ucd \<Rightarrow> ustr \<Rightarrow> exn + int" where
  "py_int U s =
     (if s = [] \<or> \<not> list_all (isdigit U) s then Inl ValueError
      else Inr (foldl (\<lambda>a c. 10 * a + int (case decimal U c of Some d \<Rightarrow> d | None \<Rightarrow> 0)) 0 s))"

text \<open>\<open>re.search(r'(\d+)', s)\<close>: the first maximal run of digits, \<open>None\<close> without a digit.\<close>

definition search_digits :: "ucd \<Rightarrow> ustr \<Rightarrow> ustr option" where
  "search_digits U s =
     (let m = takeWhile (isdigit U) (dropWhile (\<lambda>c. \<not> isdigit U c) s)
      in if m = [] then None else Some m)"

section \<open>Reviews of one page\<close>

record review =
  review_id :: ustr
  reviewer_name :: ustr
  rating :: int
  title :: ustr
  review_text :: ustr
  date :: ustr
  verified_purchase :: bool
  helpful_votes :: int
  vine_customer :: bool

definition wait_for_reviews_to_load :: "element \<Rightarrow> bool" where
  "wait_for_reviews_to_load doc =
     (case wait_presence doc ''[data-hook='review']'' of Inr _ \<Rightarrow> True | Inl _ \<Rightarrow> False)"

text \<open>
  The body of the loop of \<open>_extract_reviews_from_page\<close> (the second definition of that
  name in the class, which is the one Python keeps) up to the retention test: \<open>Inl\<close>
  is an exception that reaches the \<open>except\<close> of the loop body.
\<close>

definition parse_review :: "ucd \<Rightarrow> element \<Rightarrow> element \<Rightarrow> exn + review" where
  "parse_review U doc element =
     (let rid = safe_get_attribute (Some element) ''id'' in
      and_then (safe_find_element doc ''.a-profile-name'') (\<lambda>reviewer_element.
      let name = (case reviewer_element of
                    Some e \<Rightarrow> safe_get_text (Some e)
                  | None \<Rightarrow> u ''Anonymous'') in
      and_then (find_element element ''i.a-icon span.a-icon-alt'') (\<lambda>rating_element.
      let rating_text = safe_get_text (Some rating_element) in
      and_then (if rating_text \<noteq> [] then
             (case search_digits U rating_text of
                Some m \<Rightarrow> py_int U m
              | None \<Rightarrow> Inr 0)
           else Inr 0) (\<lambda>stars.
      and_then (find_element element ''[data-hook='review-title'] span'') (\<lambda>title_element.
      and_then (find_element element ''[data-hook='review-body'] span'') (\<lambda>content_element.
      and_then (find_element element ''[data-hook='review-date']'') (\<lambda>date_element.
      and_then (el_find element ''[data-hook='avp-badge']'') (\<lambda>verified_element.
      and_then (el_find element ''[data-hook='helpful-vote-statement']'') (\<lambda>helpful_element.
      and_then (case helpful_element of
             [] \<Rightarrow> Inr 0
           | h # _ \<Rightarrow> (case search_digits U (safe_get_text (Some h)) of
                         Some m \<Rightarrow> py_int U m
                       | None \<Rightarrow> Inr 0)) (\<lambda>votes.
      and_then (el_find element ''[data-hook='vine-customer-review']'') (\<lambda>vine_element.
      Inr \<lparr> review_id = rid,
            reviewer_name = name,
            rating = stars,
            title = safe_get_text (Some title_element),
            review_text = safe_get_text (Some content_element),
            date = safe_get_text (Some date_element),
            verified_purchase = (length verified_element > 0),
            helpful_votes = votes,
            vine_customer = (length vine_element > 0) \<rparr>)))))))))))"

text \<open>The retention test, \<open>review_data["review_text"] and len(....strip()) >= 10\<close>.\<close>

definition meaningful :: "review \<Rightarrow> bool" where
  "meaningful review_data =
     (review_text review_data \<noteq> [] \<and> length (strip (review_text review_data)) \<ge> 10)"

fun reviews_loop :: "ucd \<Rightarrow> element \<Rightarrow> element list \<Rightarrow> review list \<Rightarrow> review list" where
  "reviews_loop U doc [] reviews = reviews"
| "reviews_loop U doc (element # rest) reviews =
     (case parse_review U doc element of
        Inl _ \<Rightarrow> reviews_loop U doc rest reviews
      | Inr review_data \<Rightarrow>
          if meaningful review_data then reviews_loop U doc rest (reviews @ [review_data])
          else reviews_loop U doc rest reviews)"

definition extract_reviews_from_page :: "ucd \<Rightarrow> element \<Rightarrow> review list" where
  "extract_reviews_from_page U doc =
     (if \<not> wait_for_reviews_to_load doc then []
      else case el_find doc ''[data-hook='review']'' of
             Inl _ \<Rightarrow> []
           | Inr review_elements \<Rightarrow>
               if review_elements = [] then []
               else reviews_loop U doc review_elements [])"

text \<open>
  The review candidates of a page, in the words of the specification: the records built
  from the nodes marked as reviews, those nodes left out whose processing fails.
\<close>

definition built :: "ucd \<Rightarrow> element \<Rightarrow> element list \<Rightarrow> review list" where
  "built U doc elements =
     concat (map (\<lambda>e. case parse_review U doc e of Inl _ \<Rightarrow> [] | Inr r \<Rightarrow> [r]) elements)"


section \<open>Product details: the record\<close>

text \<open>The dictionary that \<open>extract_product_details\<close> starts from.\<close>

definition new_product_data :: "ustr \<Rightarrow> pydict" where
  "new_product_data resolved_url =
     [''url'' \<mapsto> PStr resolved_url,
      ''name'' \<mapsto> PStr [],
      ''price'' \<mapsto> PStr [],
      ''currency'' \<mapsto> PStr [],
      ''rating'' \<mapsto> PFloatOf (u ''0.0''),
      ''review_count'' \<mapsto> PInt 0,
      ''features'' \<mapsto> PList [],
      ''seller_name'' \<mapsto> PStr [],
      ''asin'' \<mapsto> PStr [],
      ''images'' \<mapsto> PList []]"

section \<open>Regular expressions of the scraper\<close>

text \<open>
  The patterns that capture an identifier are sequences of three kinds of items: a
  literal text, \<open>\s*\<close> and the group \<open>([A-Z0-9]{10})\<close>. In every pattern of the source
  \<open>\s*\<close> is followed by a literal that does not start with white space, so the greedy
  match of \<open>\s*\<close> is the only one. \<open>match_here\<close> matches at the start of a text and
  \<open>re_search\<close> is \<open>re.search(...)\<close> followed by \<open>group(1)\<close>: the leftmost match.
\<close>

datatype re_item = Lit ustr | Spaces | Asin10

definition asin_char :: "nat \<Rightarrow> bool" where
  "asin_char c = ((65 \<le> c \<and> c \<le> 90) \<or> (48 \<le> c \<and> c \<le> 57))"

fun match_here :: "re_item list \<Rightarrow> ustr \<Rightarrow> ustr \<Rightarrow> ustr option" where
  "match_here [] s g = Some g"
| "match_here (Lit l # items) s g =
     (if startswith s l then match_here items (drop (length l) s) g else None)"
| "match_here (Spaces # items) s g = match_here items (dropWhile isspace s) g"
| "match_here (Asin10 # items) s g =
     (if length (take 10 s) = 10 \<and> list_all asin_char (take 10 s)
      then match_here items (drop 10 s) (take 10 s) else None)"

fun re_search :: "re_item list \<Rightarrow> ustr \<Rightarrow> ustr option" where
  "re_search items [] = match_here items [] []"
| "re_search items (c # s) =
     (case match_here items (c # s) [] of
        Some g \<Rightarrow> Some g
      | None \<Rightarrow> re_search items s)"

text \<open>\<open>for pattern in patterns: match = re.search(pattern, s); if match: return ...\<close>\<close>

fun first_match :: "re_item list list \<Rightarrow> ustr \<Rightarrow> ustr option" where
  "first_match [] s = None"
| "first_match (pattern # patterns) s =
     (case re_search pattern s of
        Some g \<Rightarrow> Some g
      | None \<Rightarrow> first_match patterns s)"

section \<open>The loaded page\<close>

text \<open>
  A tag of the parsed page source, as BeautifulSoup gives it: its name, its attributes
  and \<open>.string\<close>. The parsed source is the list of its tags in document order, so
  \<open>soup.find\<close> is the first tag that matches and \<open>soup.find_all\<close> are all that match.
\<close>

record tag =
  tag_name :: string
  tag_attrs :: "(string \<times> ustr) list"
  tag_string :: "ustr option"

definition tag_get :: "tag \<Rightarrow> string \<Rightarrow> ustr option" where
  "tag_get t a = map_of (tag_attrs t) a"

text \<open>
  What the driver shows after a page load: \<open>driver.current_url\<close>, the text of
  \<open>driver.page_source\<close>, its parse \<open>BeautifulSoup(driver.page_source, 'html.parser')\<close>
  (\<open>Inl\<close> when reading or parsing raises), and the document.
\<close>

record page =
  current_url :: "exn + ustr"
  page_source :: "exn + ustr"
  parsed_source :: "exn + tag list"
  document :: element

section \<open>The external identifier\<close>

definition detect_amazon_domain :: "ustr \<Rightarrow> ustr" where
  "detect_amazon_domain url =
     (if contains (u ''amazon.com'') url then u ''https://www.amazon.com''
      else if contains (u ''amazon.co.uk'') url then u ''https://www.amazon.co.uk''
      else if contains (u ''amazon.in'') url then u ''https://www.amazon.in''
      else if contains (u ''amazon.de'') url then u ''https://www.amazon.de''
      else u ''https://www.amazon.com'')"

definition is_page_id_meta :: "tag \<Rightarrow> bool" where
  "is_page_id_meta t = (tag_name t = ''meta'' \<and> tag_get t ''name'' = Some (u ''pageId''))"

definition has_data_asin :: "tag \<Rightarrow> bool" where
  "has_data_asin t = (tag_get t ''data-asin'' \<noteq> None)"


text \<open>The loop over the script tags, with the patterns tried on each script in turn.\<close>

fun scripts_search :: "re_item list list \<Rightarrow> tag list \<Rightarrow> ustr option" where
  "scripts_search patterns [] = None"
| "scripts_search patterns (script # rest) =
     (case tag_string script of
        None \<Rightarrow> scripts_search patterns rest
      | Some s \<Rightarrow>
          (if s = [] then scripts_search patterns rest
           else (case first_match patterns s of
                   Some g \<Rightarrow> Some g
                 | None \<Rightarrow> scripts_search patterns rest)))"

definition page_asin_patterns :: "re_item list list" where
  \<open>page_asin_patterns =
     [[Lit (u ''"ASIN"''), Spaces, Lit (u '':''), Spaces, Lit (u ''"''), Asin10, Lit (u ''"'')]]\<close>

text \<open>\<open>extract_asin_from_page\<close>, which \<open>extract_product_details\<close> and \<open>extract_asin\<close> call.\<close>

definition extract_asin_from_page :: "page \<Rightarrow> ustr option" where
  "extract_asin_from_page p =
     (case parsed_source p of
        Inl _ \<Rightarrow> None
      | Inr soup \<Rightarrow>
          (case find is_page_id_meta soup of
             Some asin_meta \<Rightarrow> tag_get asin_meta ''content''
           | None \<Rightarrow>
               (case find has_data_asin soup of
                  Some asin_element \<Rightarrow> tag_get asin_element ''data-asin''
                | None \<Rightarrow>
                    scripts_search page_asin_patterns
                      (filter (\<lambda>t. tag_name t = ''script'') soup))))"

definition url_asin_patterns :: "re_item list list" where
  "url_asin_patterns =
     [[Lit (u ''/dp/''), Asin10],
      [Lit (u ''/gp/product/''), Asin10],
      [Lit (u ''asin=''), Asin10]]"

definition extract_asin :: "page \<Rightarrow> ustr \<Rightarrow> ustr option" where
  "extract_asin p url =
     (case first_match url_asin_patterns url of
        Some g \<Rightarrow> Some g
      | None \<Rightarrow> extract_asin_from_page p)"












section \<open>The browser\<close>

text \<open>
  The scraper drives one browser. What a page load answers is the environment's choice:
  \<open>web n r\<close> is the outcome of the \<open>n\<close>-th page load of the run, requested as \<open>r\<close>
  (a \<open>driver.get(url)\<close> or a click on a link), either an exception or the page shown
  afterwards. The log records, in order, the page loads requested, the calls of
  \<open>time.sleep\<close> with a fixed duration, the randomised delays of \<open>ethical_delay\<close> with the
  bounds passed to it, and the pages of a listing on which extraction started.
  \<open>time.sleep\<close> is taken to return.
\<close>

datatype request = Get ustr | Click

datatype event =
    Request request
  | Sleep int
  | EthicalDelay "int option" "int option"
  | Scraping int

type_synonym web = "nat \<Rightarrow> request \<Rightarrow> exn + page"

record browser =
  shown :: page
  loads :: nat
  log :: "event list"

record settings =
  MAX_REVIEWS_PER_PRODUCT :: int
  MAX_PAGES_TO_SCRAPE :: int
  RANDOM_DELAYS :: bool
  HANDLE_CAPTCHAS :: bool
  MAX_RETRIES :: int

definition default_settings :: settings where
  "default_settings =
     \<lparr> MAX_REVIEWS_PER_PRODUCT = 1000, MAX_PAGES_TO_SCRAPE = 20, RANDOM_DELAYS = True,
       HANDLE_CAPTCHAS = True, MAX_RETRIES = 3 \<rparr>"

text \<open>The browser after \<open>setup_driver\<close>: an empty document, nothing loaded or logged.\<close>

definition blank_page :: page where
  "blank_page =
     \<lparr> current_url = Inr (u ''data:,''), page_source = Inr [], parsed_source = Inr [],
       document = Element (Inr []) (\<lambda>_. Inr None) (\<lambda>_. Inr []) \<rparr>"

definition fresh_browser :: browser where
  "fresh_browser = \<lparr> shown = blank_page, loads = 0, log = [] \<rparr>"

definition load :: "web \<Rightarrow> request \<Rightarrow> browser \<Rightarrow> (exn + unit) \<times> browser" where
  "load web r b =
     (let b' = b\<lparr> loads := loads b + 1, log := log b @ [Request r] \<rparr>
      in case web (loads b) r of
           Inl x \<Rightarrow> (Inl x, b')
         | Inr p \<Rightarrow> (Inr (), b'\<lparr> shown := p \<rparr>))"

definition sleep :: "int \<Rightarrow> browser \<Rightarrow> browser" where
  "sleep n b = b\<lparr> log := log b @ [Sleep n] \<rparr>"

definition ethical_delay :: "settings \<Rightarrow> int option \<Rightarrow> int option \<Rightarrow> browser \<Rightarrow> browser" where
  "ethical_delay S min_delay max_delay b =
     (if \<not> RANDOM_DELAYS S then b
      else b\<lparr> log := log b @ [EthicalDelay min_delay max_delay] \<rparr>)"

text \<open>
  \<open>handle_dynamic_content_loading\<close>: the wait for the body (located by its tag name,
  here the selector \<open>body\<close>) may raise; only \<open>TimeoutException\<close> is caught.
  \<open>scroll_page\<close> and \<open>wait_for_page_ready\<close> catch every exception themselves and are
  not modelled further.
\<close>

definition handle_dynamic_content_loading :: "element \<Rightarrow> exn + unit" where
  "handle_dynamic_content_loading doc =
     (case wait_presence doc ''body'' of
        Inr _ \<Rightarrow> Inr ()
      | Inl x \<Rightarrow> if x = TimeoutException then Inr () else Inl x)"

definition captcha_selectors :: "string list" where
  "captcha_selectors =
     [''iframe[src*='captcha']'', ''iframe[src*='recaptcha']'', ''.captcha-container'',
      ''#captcha'', ''[data-testid='captcha']'', ''.g-recaptcha'']"

fun captcha_scan :: "element \<Rightarrow> string list \<Rightarrow> exn + bool" where
  "captcha_scan doc [] = Inr False"
| "captcha_scan doc (selector # rest) =
     (case el_find doc selector of
        Inl x \<Rightarrow> Inl x
      | Inr [] \<Rightarrow> captcha_scan doc rest
      | Inr (_ # _) \<Rightarrow> Inr True)"

definition blocked_indicators :: "ustr list" where
  "blocked_indicators =
     [u ''access denied'', u ''blocked'', u ''captcha'', u ''unusual traffic'',
      u ''automated requests'']"

text \<open>\<open>handle_anti_bot_measures\<close>; an exception inside is caught and ends the check.\<close>

definition handle_anti_bot_measures :: "settings \<Rightarrow> ucd \<Rightarrow> browser \<Rightarrow> browser" where
  "handle_anti_bot_measures S U b =
     (if \<not> HANDLE_CAPTCHAS S then b
      else (case captcha_scan (document (shown b)) captcha_selectors of
              Inl _ \<Rightarrow> b
            | Inr found \<Rightarrow>
                (let b1 = (if found then sleep 30 b else b)
                 in case page_source (shown b) of
                      Inl _ \<Rightarrow> b1
                    | Inr text \<Rightarrow>
                        if list_ex (\<lambda>indicator. contains indicator (lower U text))
                             blocked_indicators
                        then ethical_delay S (Some 5) (Some 10) b1
                        else b1)))"

text \<open>One pass through the \<open>try\<close> block of \<open>navigate_with_retry\<close>.\<close>

definition navigation_attempt ::
  "settings \<Rightarrow> ucd \<Rightarrow> web \<Rightarrow> ustr \<Rightarrow> browser \<Rightarrow> (exn + unit) \<times> browser" where
  "navigation_attempt S U web url b =
     (case load web (Get url) b of
        (Inl x, b1) \<Rightarrow> (Inl x, b1)
      | (Inr _, b1) \<Rightarrow>
          (case handle_dynamic_content_loading (document (shown b1)) of
             Inl x \<Rightarrow> (Inl x, b1)
           | Inr _ \<Rightarrow> (Inr (), ethical_delay S None None (handle_anti_bot_measures S U b1))))"

function navigate_from ::
  "settings \<Rightarrow> ucd \<Rightarrow> web \<Rightarrow> ustr \<Rightarrow> int \<Rightarrow> browser \<Rightarrow> bool \<times> browser" where
  "navigate_from S U web url attempt b =
     (if attempt < MAX_RETRIES S then
        (case navigation_attempt S U web url b of
           (Inr _, b1) \<Rightarrow> (True, b1)
         | (Inl _, b1) \<Rightarrow>
             if attempt < MAX_RETRIES S - 1
             then navigate_from S U web url (attempt + 1) (sleep ((attempt + 1) * 2) b1)
             else (False, b1))
      else (False, b))"
  by pat_completeness auto
termination
  by (relation "measure (\<lambda>(S, U, web, url, attempt, b). nat (MAX_RETRIES S - attempt))") auto

declare navigate_from.simps [simp del]

text \<open>\<open>for attempt in range(settings.MAX_RETRIES)\<close> starts at attempt 0.\<close>

definition navigate_with_retry ::
  "settings \<Rightarrow> ucd \<Rightarrow> web \<Rightarrow> ustr \<Rightarrow> browser \<Rightarrow> bool \<times> browser" where
  "navigate_with_retry S U web url b = navigate_from S U web url 0 b"






section \<open>Product details: the fields\<close>

text \<open>
  Each extractor below is one loop of the source over its selectors. It returns the
  record as it has updated it, or the exception that it lets through; in each of them
  every call that can raise comes before the first update of the record. The log lines
  of the source read keys of the record that \<open>new_product_data\<close> sets and that no
  extractor removes, so they do not raise and are left out.
\<close>

definition name_selectors :: "string list" where
  "name_selectors = [''#productTitle'', ''.product-title h1'', ''h1.a-size-large'']"

fun name_loop :: "element \<Rightarrow> string list \<Rightarrow> pydict \<Rightarrow> exn + pydict" where
  "name_loop doc [] product_data = Inr product_data"
| "name_loop doc (selector # rest) product_data =
     (case safe_find_element doc selector of
        Inl x \<Rightarrow> Inl x
      | Inr None \<Rightarrow> name_loop doc rest product_data
      | Inr (Some e) \<Rightarrow> Inr (product_data(''name'' \<mapsto> PStr (safe_get_text (Some e)))))"

text \<open>\<open>re.search(r'(\d+\.?\d*)', s)\<close>: digits, then a full stop if there is one, then digits.\<close>

definition search_decimal :: "ucd \<Rightarrow> ustr \<Rightarrow> ustr option" where
  "search_decimal U s =
     (let t = dropWhile (\<lambda>c. \<not> isdigit U c) s;
          whole = takeWhile (isdigit U) t
      in if whole = [] then None
         else (case drop (length whole) t of
                 [] \<Rightarrow> Some whole
               | c # rest \<Rightarrow>
                   if c = 46 then Some (whole @ [46] @ takeWhile (isdigit U) rest)
                   else Some whole))"

definition rating_selectors :: "string list" where
  "rating_selectors =
     [''.a-icon-alt'', ''[data-hook='average-star-rating'] .a-icon-alt'',
      ''.reviewCountTextLinkedHistogram .a-icon-alt'']"

text \<open>The first loop of \<open>_extract_rating_info\<close>.\<close>

fun rating_loop :: "ucd \<Rightarrow> element \<Rightarrow> string list \<Rightarrow> pydict \<Rightarrow> exn + pydict" where
  "rating_loop U doc [] product_data = Inr product_data"
| "rating_loop U doc (selector # rest) product_data =
     (case safe_find_element doc selector of
        Inl x \<Rightarrow> Inl x
      | Inr None \<Rightarrow> rating_loop U doc rest product_data
      | Inr (Some e) \<Rightarrow>
          (let a = safe_get_attribute (Some e) ''textContent'';
               rating_text = (if a \<noteq> [] then a else safe_get_text (Some e))
           in if rating_text = [] then rating_loop U doc rest product_data
              else (case search_decimal U rating_text of
                      None \<Rightarrow> rating_loop U doc rest product_data
                    | Some m \<Rightarrow> Inr (product_data(''rating'' \<mapsto> PFloatOf m)))))"

text \<open>\<open>re.search(r'([\d,]+)', s)\<close>\<close>

definition search_digits_commas :: "ucd \<Rightarrow> ustr \<Rightarrow> ustr option" where
  "search_digits_commas U s =
     (let m = takeWhile (\<lambda>c. isdigit U c \<or> c = 44)
                (dropWhile (\<lambda>c. \<not> (isdigit U c \<or> c = 44)) s)
      in if m = [] then None else Some m)"

definition review_count_selectors :: "string list" where
  "review_count_selectors =
     [''#acrCustomerReviewText'', ''[data-hook='total-review-count']'',
      ''.reviewCountTextLinkedHistogram .a-link-normal'']"

text \<open>
  The second loop of \<open>_extract_rating_info\<close>; a \<open>ValueError\<close> of \<open>int\<close> is caught and
  the loop goes on with the next selector.
\<close>

fun review_count_loop :: "ucd \<Rightarrow> element \<Rightarrow> string list \<Rightarrow> pydict \<Rightarrow> exn + pydict" where
  "review_count_loop U doc [] product_data = Inr product_data"
| "review_count_loop U doc (selector # rest) product_data =
     (case safe_find_element doc selector of
        Inl x \<Rightarrow> Inl x
      | Inr None \<Rightarrow> review_count_loop U doc rest product_data
      | Inr (Some e) \<Rightarrow>
          (let count_text = safe_get_text (Some e)
           in if count_text = [] then review_count_loop U doc rest product_data
              else (case search_digits_commas U count_text of
                      None \<Rightarrow> review_count_loop U doc rest product_data
                    | Some m \<Rightarrow>
                        (case py_int U (filter (\<lambda>c. c \<noteq> 44) m) of
                           Inl _ \<Rightarrow> review_count_loop U doc rest product_data
                         | Inr n \<Rightarrow> Inr (product_data(''review_count'' \<mapsto> PInt n))))))"

text \<open>
  Appending to a list stored in the record; the subscript raises \<open>KeyError\<close> without
  the key, and \<open>append\<close> raises \<open>AttributeError\<close> on a value that is no list.
\<close>

definition extend_list :: "string \<Rightarrow> ustr list \<Rightarrow> pydict \<Rightarrow> exn + pydict" where
  "extend_list key new product_data =
     (if new = [] then Inr product_data
      else (case product_data key of
              None \<Rightarrow> Inl KeyError
            | Some (PList old) \<Rightarrow> Inr (product_data(key \<mapsto> PList (old @ new)))
            | Some _ \<Rightarrow> Inl AttributeError))"

text \<open>\<open>re.sub(r'^[\<bullet>\-\*]\s*', '', s).strip()\<close>, the bullet being U+2022.\<close>

definition clean_feature :: "ustr \<Rightarrow> ustr" where
  "clean_feature s =
     strip (case s of
              [] \<Rightarrow> []
            | c # rest \<Rightarrow> if c = 8226 \<or> c = 45 \<or> c = 42 then dropWhile isspace rest else s)"

definition keep_feature :: "ustr \<Rightarrow> bool" where
  "keep_feature feature_text =
     (feature_text \<noteq> [] \<and> length feature_text > 10
      \<and> \<not> startswith feature_text (u ''Make sure''))"

definition feature_selectors :: "string list" where
  "feature_selectors =
     [''#feature-bullets ul li'', ''#productDetails_feature_div li'',
      ''.a-unordered-list .a-list-item'']"

fun features_loop :: "element \<Rightarrow> string list \<Rightarrow> pydict \<Rightarrow> exn + pydict" where
  "features_loop doc [] product_data = Inr product_data"
| "features_loop doc (selector # rest) product_data =
     (case safe_find_elements doc selector of
        Inl x \<Rightarrow> Inl x
      | Inr [] \<Rightarrow> features_loop doc rest product_data
      | Inr (e # es) \<Rightarrow>
          extend_list ''features''
            (map clean_feature
               (filter keep_feature (map (\<lambda>el. safe_get_text (Some el)) (take 10 (e # es)))))
            product_data)"

definition extract_features :: "element \<Rightarrow> pydict \<Rightarrow> exn + pydict" where
  "extract_features doc product_data = features_loop doc feature_selectors product_data"

text \<open>\<open>s.replace(old, '')\<close> for a non-empty \<open>old\<close>.\<close>

function remove_all :: "ustr \<Rightarrow> ustr \<Rightarrow> ustr" where
  "remove_all old [] = []"
| "remove_all old (c # s) =
     (if old \<noteq> [] \<and> startswith (c # s) old then remove_all old (drop (length old - 1) s)
      else c # remove_all old s)"
  by pat_completeness auto
termination
  by (relation "measure (\<lambda>(old, s). length s)") auto

definition seller_selectors :: "string list" where
  "seller_selectors = [''#sellerProfileTriggerId'', ''#bylineInfo'', ''.po-brand .po-break-word'']"

text \<open>The loop of \<open>_extract_seller_info\<close>; its result is \<open>seller_info.get("name")\<close>.\<close>

fun seller_loop :: "element \<Rightarrow> string list \<Rightarrow> exn + ustr option" where
  "seller_loop doc [] = Inr None"
| "seller_loop doc (selector # rest) =
     (case safe_find_element doc selector of
        Inl x \<Rightarrow> Inl x
      | Inr None \<Rightarrow> seller_loop doc rest
      | Inr (Some e) \<Rightarrow>
          (let seller_text = safe_get_text (Some e)
           in if seller_text \<noteq> [] \<and> \<not> startswith seller_text (u ''Visit'')
              then Inr (Some (strip (remove_all (u ''Brand:'') seller_text)))
              else seller_loop doc rest))"

definition extract_seller_info :: "element \<Rightarrow> pydict \<Rightarrow> exn + pydict" where
  "extract_seller_info doc product_data =
     and_then (seller_loop doc seller_selectors) (\<lambda>found.
       Inr (product_data(''seller_info'' \<mapsto>
              PDict [(''name'', PStr (case found of
                                       None \<Rightarrow> u ''Amazon''
                                     | Some n \<Rightarrow> if n = [] then u ''Amazon'' else n))])))"

definition availability_selectors :: "string list" where
  "availability_selectors = [''#availability span'', ''.a-color-success'', ''.a-color-price'']"

fun availability_loop :: "ucd \<Rightarrow> element \<Rightarrow> string list \<Rightarrow> pydict \<Rightarrow> exn + pydict" where
  "availability_loop U doc [] product_data = Inr product_data"
| "availability_loop U doc (selector # rest) product_data =
     (case safe_find_element doc selector of
        Inl x \<Rightarrow> Inl x
      | Inr None \<Rightarrow> availability_loop U doc rest product_data
      | Inr (Some e) \<Rightarrow>
          (let availability_text = safe_get_text (Some e)
           in if contains (u ''stock'') (lower U availability_text)
                 \<or> contains (u ''available'') (lower U availability_text)
              then Inr (product_data(''availability'' \<mapsto> PStr availability_text))
              else availability_loop U doc rest product_data))"

definition extract_availability :: "ucd \<Rightarrow> element \<Rightarrow> pydict \<Rightarrow> exn + pydict" where
  "extract_availability U doc product_data =
     availability_loop U doc availability_selectors product_data"

definition image_selectors :: "string list" where
  "image_selectors = [''#altImages img'', ''#landingImage'', ''.a-dynamic-image'']"

fun images_loop :: "element \<Rightarrow> string list \<Rightarrow> pydict \<Rightarrow> exn + pydict" where
  "images_loop doc [] product_data = Inr product_data"
| "images_loop doc (selector # rest) product_data =
     (case safe_find_elements doc selector of
        Inl x \<Rightarrow> Inl x
      | Inr [] \<Rightarrow> images_loop doc rest product_data
      | Inr (e # es) \<Rightarrow>
          extend_list ''images''
            (filter (\<lambda>img_src. img_src \<noteq> [] \<and> contains (u ''http'') img_src)
               (map (\<lambda>el. safe_get_attribute (Some el) ''src'') (take 5 (e # es))))
            product_data)"

definition extract_images :: "element \<Rightarrow> pydict \<Rightarrow> exn + pydict" where
  "extract_images doc product_data = images_loop doc image_selectors product_data"

section \<open>Product details\<close>

text \<open>
  \<open>resolve_short_url\<close>. The answer of the redirect-following HEAD request is the
  environment's: the final URL, or an exception.
\<close>

definition resolve_short_url :: "(ustr \<Rightarrow> exn + ustr) \<Rightarrow> ustr \<Rightarrow> exn + ustr" where
  "resolve_short_url probe url =
     (case probe url of
        Inr final_url \<Rightarrow> Inr final_url
      | Inl _ \<Rightarrow> Inr url)"

text \<open>
  The statements of a \<open>try\<close> block that update the record one after the other: an
  exception ends the block, and the \<open>except\<close> clause leaves the record as it is then.
\<close>

fun run_steps :: "(pydict \<Rightarrow> exn + pydict) list \<Rightarrow> pydict \<Rightarrow> pydict" where
  "run_steps [] product_data = product_data"
| "run_steps (step # rest) product_data =
     (case step product_data of
        Inl _ \<Rightarrow> product_data
      | Inr product_data' \<Rightarrow> run_steps rest product_data')"

definition extract_product_details ::
  "settings \<Rightarrow> ucd \<Rightarrow> (ustr \<Rightarrow> exn + ustr) \<Rightarrow> web \<Rightarrow> ustr \<Rightarrow> browser
     \<Rightarrow> (exn + pydict) \<times> browser" where
  "extract_product_details S U probe web url b =
     (case resolve_short_url probe url of
        Inl x \<Rightarrow> (Inl x, b)
      | Inr resolved_url \<Rightarrow>
          (case load web (Get resolved_url) b of
             (Inl _, b1) \<Rightarrow> (Inr (new_product_data resolved_url), b1)
           | (Inr _, b1) \<Rightarrow>
               (let b2 = ethical_delay S None None b1;
                    doc = document (shown b2);
                    asin = (case extract_asin_from_page (shown b2) of
                              Some a \<Rightarrow> a
                            | None \<Rightarrow> [])
                in (Inr (run_steps
                           [name_loop doc name_selectors,
                            extract_price_info U doc,
                            rating_loop U doc rating_selectors,
                            review_count_loop U doc review_count_selectors,
                            extract_features doc,
                            extract_seller_info doc,
                            extract_availability U doc,
                            extract_images doc]
                           ((new_product_data resolved_url)(''asin'' \<mapsto> PStr asin))),
                    b2))))"

section \<open>Pagination of the reviews\<close>

text \<open>
  The \<open>try\<close> block at the end of the loop body of \<open>collect_customer_reviews\<close>: \<open>True\<close>
  when the next page has been asked for and shown, \<open>False\<close> for \<open>break\<close>. A class
  attribute that is \<open>None\<close> makes \<open>in\<close> raise, which the bare \<open>except\<close> turns into \<open>break\<close>.
\<close>

definition next_page :: "settings \<Rightarrow> web \<Rightarrow> browser \<Rightarrow> bool \<times> browser" where
  "next_page S web b =
     (case safe_find_element (document (shown b)) ''li.a-last a'' of
        Inl _ \<Rightarrow> (False, b)
      | Inr None \<Rightarrow> (False, b)
      | Inr (Some next_button) \<Rightarrow>
          (case el_attr next_button ''class'' of
             Inl _ \<Rightarrow> (False, b)
           | Inr None \<Rightarrow> (False, b)
           | Inr (Some c) \<Rightarrow>
               if \<not> contains (u ''a-disabled'') c
               then (case load web Click b of
                       (Inl _, b1) \<Rightarrow> (False, b1)
                     | (Inr _, b1) \<Rightarrow> (True, ethical_delay S None None b1))
               else (False, b)))"

text \<open>\<open>for page in range(1, max_pages + 1)\<close>, from \<open>page\<close> on.\<close>

function pages_from ::
  "settings \<Rightarrow> ucd \<Rightarrow> web \<Rightarrow> int \<Rightarrow> int \<Rightarrow> browser \<Rightarrow> review list
     \<Rightarrow> review list \<times> browser" where
  "pages_from S U web max_pages page b reviews =
     (if page \<le> max_pages then
        (let b0 = b\<lparr> log := log b @ [Scraping page] \<rparr>;
             reviews' = reviews @ extract_reviews_from_page U (document (shown b0))
         in case next_page S web b0 of
              (True, b1) \<Rightarrow> pages_from S U web max_pages (page + 1) b1 reviews'
            | (False, b1) \<Rightarrow> (reviews', b1))
      else (reviews, b))"
  by pat_completeness auto
termination
  by (relation "measure (\<lambda>(S, U, web, max_pages, page, b, reviews). nat (max_pages + 1 - page))")
     auto

declare pages_from.simps [simp del]

definition reviews_url :: "ustr \<Rightarrow> ustr \<Rightarrow> ustr" where
  "reviews_url base_url asin =
     base_url @ u ''/product-reviews/'' @ asin
       @ u ''/ref=cm_cr_dp_d_show_all_btm?reviewerType=all_reviews&sortBy=recent''"

definition collect_customer_reviews ::
  "settings \<Rightarrow> ucd \<Rightarrow> web \<Rightarrow> ustr \<Rightarrow> int \<Rightarrow> browser \<Rightarrow> (exn + review list) \<times> browser" where
  "collect_customer_reviews S U web url max_pages b =
     (case extract_asin (shown b) url of
        None \<Rightarrow> (Inr [], b)
      | Some asin \<Rightarrow>
          if asin = [] then (Inr [], b)
          else (case navigate_with_retry S U web
                       (reviews_url (detect_amazon_domain url) asin) b of
                  (False, b1) \<Rightarrow> (Inr [], b1)
                | (True, b1) \<Rightarrow>
                    (case pages_from S U web max_pages 1 b1 [] of
                       (reviews, b2) \<Rightarrow> (Inr reviews, b2))))"

section \<open>The whole run\<close>

text \<open>The value of the parameter \<open>max_pages\<close> when the caller passes none.\<close>

definition default_max_pages :: int where
  "default_max_pages = 5"

text \<open>The result of a run; the time stamp is left out.\<close>

record scrape_result =
  product_details :: pydict
  reviews :: "review list"
  total_reviews_scraped :: nat

definition scrape_product ::
  "settings \<Rightarrow> ucd \<Rightarrow> (ustr \<Rightarrow> exn + ustr) \<Rightarrow> web \<Rightarrow> ustr \<Rightarrow> browser
     \<Rightarrow> (exn + scrape_result) \<times> browser" where
  "scrape_product S U probe web url b =
     (case extract_product_details S U probe web url b of
        (Inl x, b1) \<Rightarrow> (Inl x, b1)
      | (Inr details, b1) \<Rightarrow>
          (case collect_customer_reviews S U web url default_max_pages b1 of
             (Inl x, b2) \<Rightarrow> (Inl x, b2)
           | (Inr collected, b2) \<Rightarrow>
               (Inr \<lparr> product_details = details, reviews = collected,
                      total_reviews_scraped = length collected \<rparr>, b2)))"

text \<open>The page numbers of a log on which extraction started, in order.\<close>

fun scraped_pages :: "event list \<Rightarrow> int list" where
  "scraped_pages [] = []"
| "scraped_pages (Scraping n # l) = n # scraped_pages l"
| "scraped_pages (_ # l) = scraped_pages l"

section \<open>The command line\<close>

definition amazon_domains :: "ustr list" where
  "amazon_domains =
     [u ''amazon.com'', u ''amazon.in'', u ''amazon.co.uk'', u ''amazon.de'',
      u ''amzn.in'', u ''amzn.to'', u ''a.co'']"

definition is_amazon_url :: "ucd \<Rightarrow> ustr \<Rightarrow> bool" where
  "is_amazon_url U url = list_ex (\<lambda>domain. contains domain (lower U url)) amazon_domains"

text \<open>
  The validity of an input in the words of the specification, for comparison with the
  check above: the domain of the URL is on the allow-list. The domain is the host of
  the URL, the text between \<open>://\<close> and the next \<open>/\<close>, \<open>?\<close>, \<open>#\<close> or \<open>:\<close>; it is on the
  list when it is one of the listed domains or a subdomain of one.
\<close>

fun after_scheme :: "ustr \<Rightarrow> ustr" where
  "after_scheme [] = []"
| "after_scheme (c # s) =
     (if startswith (c # s) (u ''://'') then drop 2 s else after_scheme s)"

definition url_host :: "ustr \<Rightarrow> ustr" where
  "url_host url =
     takeWhile (\<lambda>c. c \<noteq> 47 \<and> c \<noteq> 63 \<and> c \<noteq> 35 \<and> c \<noteq> 58)
       (if contains (u ''://'') url then after_scheme url else url)"

definition endswith :: "'a list \<Rightarrow> 'a list \<Rightarrow> bool" where
  "endswith s p = (length p \<le> length s \<and> drop (length s - length p) s = p)"

definition domain_on_allow_list :: "ucd \<Rightarrow> ustr \<Rightarrow> bool" where
  "domain_on_allow_list U url =
     list_ex (\<lambda>domain. lower U (url_host url) = domain
                      \<or> endswith (lower U (url_host url)) (u ''.'' @ domain))
       amazon_domains"

text \<open>
  The environment of a run: whether the browser can be started, the answers of the
  HEAD request, and the answers of the page loads.
\<close>

record world =
  setup_driver :: "exn + unit"
  head_request :: "ustr \<Rightarrow> exn + ustr"
  site :: web

text \<open>
  \<open>scrape_amazon_product\<close>: the result of the run, or \<open>None\<close> for the empty dictionary
  that it returns after an exception, together with the log of the browser. Writing the
  files and printing the summary are not modelled; they are taken to return.
\<close>

definition scrape_amazon_product ::
  "settings \<Rightarrow> ucd \<Rightarrow> world \<Rightarrow> ustr \<Rightarrow> scrape_result option \<times> event list" where
  "scrape_amazon_product S U W url =
     (case setup_driver W of
        Inl _ \<Rightarrow> (None, [])
      | Inr _ \<Rightarrow>
          (case scrape_product S U (head_request W) (site W) url fresh_browser of
             (Inl _, b) \<Rightarrow> (None, log b)
           | (Inr result, b) \<Rightarrow> (Some result, log b)))"

text \<open>\<open>main\<close> and the last line of the script: the exit code of the process and the log.\<close>

definition main :: "settings \<Rightarrow> ucd \<Rightarrow> world \<Rightarrow> ustr \<Rightarrow> int \<times> event list" where
  "main S U W url =
     (if \<not> is_amazon_url U url then (1, [])
      else (case scrape_amazon_product S U W url of
              (None, l) \<Rightarrow> (1, l)
            | (Some result, l) \<Rightarrow> (if reviews result \<noteq> [] then 0 else 1, l)))"

text \<open>The keys that no step of \<open>extract_product_details\<close> writes.\<close>

definition untouched :: "string \<Rightarrow> bool" where
  "untouched k = (k \<notin> {''name'', ''price'', ''currency'', ''rating'', ''review_count'',
                       ''features'', ''seller_info'', ''availability'', ''images'', ''asin''})"

section \<open>Fixtures\<close>

text \<open>Documents for running the functions: a text node, and a node with named children.\<close>

definition leaf :: "ustr \<Rightarrow> element" where
  "leaf t = Element (Inr t) (\<lambda>_. Inr None) (\<lambda>_. Inr [])"

definition node :: "(string \<times> element list) list \<Rightarrow> element" where
  "node children =
     Element (Inr []) (\<lambda>_. Inr None)
       (\<lambda>sel. Inr (case map_of children sel of Some es \<Rightarrow> es | None \<Rightarrow> []))"

text \<open>A review node with its own reviewer, rating, title and body, dated or not.\<close>

definition review_node :: "ustr \<Rightarrow> ustr \<Rightarrow> ustr \<Rightarrow> ustr \<Rightarrow> ustr option \<Rightarrow> element" where
  "review_node name stars heading body posted =
     node [(''.a-profile-name'', [leaf name]),
           (''i.a-icon span.a-icon-alt'', [leaf stars]),
           (''[data-hook='review-title'] span'', [leaf heading]),
           (''[data-hook='review-body'] span'', [leaf body]),
           (''[data-hook='review-date']'', (case posted of Some d \<Rightarrow> [leaf d] | None \<Rightarrow> []))]"

definition bob :: element where
  "bob = review_node (u ''Bob'') (u ''5.0 out of 5 stars'') (u ''Great'')
           (u ''Works very well indeed'') (Some (u ''1 May 2024''))"

definition carol :: element where
  "carol = review_node (u ''Carol'') (u ''2.0 out of 5 stars'') (u ''Poor'')
             (u ''Stopped working after a week'') (Some (u ''2 May 2024''))"

definition carol_review :: review where
  "carol_review =
     \<lparr> review_id = [], reviewer_name = u ''Bob'', rating = 2, title = u ''Poor'',
       review_text = u ''Stopped working after a week'', date = u ''2 May 2024'',
       verified_purchase = False, helpful_votes = 0, vine_customer = False \<rparr>"

text \<open>A page of two reviews; the first \<open>.a-profile-name\<close> of the document is Bob's.\<close>

definition two_reviews_page :: element where
  "two_reviews_page =
     node [(''[data-hook='review']'', [bob, carol]),
           (''.a-profile-name'', [leaf (u ''Bob''), leaf (u ''Carol'')])]"

text \<open>A page whose only review has a body of 22 characters and no date element.\<close>

definition undated :: element where
  "undated = review_node (u ''Bob'') (u ''5.0 out of 5 stars'') (u ''Great'')
               (u ''Works very well indeed'') None"

definition undated_review_page :: element where
  "undated_review_page =
     node [(''[data-hook='review']'', [undated]),
           (''.a-profile-name'', [leaf (u ''Bob'')])]"

text \<open>
  The reviewer name that is looked up in the whole document: the text of its first
  \<open>.a-profile-name\<close> node, \<open>Anonymous\<close> without one.
\<close>

definition page_reviewer_name :: "element \<Rightarrow> ustr" where
  "page_reviewer_name doc =
     (case find_element doc ''.a-profile-name'' of
        Inr e \<Rightarrow> safe_get_text (Some e)
      | Inl _ \<Rightarrow> u ''Anonymous'')"

text \<open>A product page whose price element reads \<open>1299\<close>, without a currency symbol.\<close>

definition bare_price_page :: element where
  "bare_price_page = node [(''.a-price-whole'', [leaf (u ''1299'')])]"





text \<open>
  A review listing without reviews whose "next" link is never disabled, a site that
  shows it on every page load, and a configuration with a page bound of 2.
\<close>

definition link :: "ustr \<Rightarrow> element" where
  "link c = Element (Inr (u ''Next page''))
              (\<lambda>a. if a = ''class'' then Inr (Some c) else Inr None) (\<lambda>_. Inr [])"

definition listing_page :: page where
  "listing_page =
     \<lparr> current_url = Inr (u ''https://www.amazon.in/product-reviews/B0123ABCDE''),
       page_source = Inr (u ''<html></html>''),
       parsed_source = Inr [],
       document = node [(''li.a-last a'', [link (u ''a-link'')])] \<rparr>"

definition endless_web :: web where
  "endless_web n r = Inr listing_page"

definition two_page_settings :: settings where
  "two_page_settings = default_settings\<lparr> MAX_PAGES_TO_SCRAPE := 2 \<rparr>"

text \<open>
  A run without network: every page load and the HEAD request raise.
\<close>

definition dead_web :: web where
  "dead_web n r = Inl WebDriverException"

definition no_redirect :: "ustr \<Rightarrow> exn + ustr" where
  "no_redirect url = Inl RequestException"

definition offline :: world where
  "offline = \<lparr> setup_driver = Inr (), head_request = no_redirect, site = dead_web \<rparr>"

text \<open>A product URL of another shop, whose host contains the text \<open>a.co\<close>.\<close>

definition ikea_url :: ustr where
  "ikea_url = u ''https://www.ikea.com/p/x''"

section \<open>Properties of the review extractor\<close>

lemma reviews_loop_filter:
  "reviews_loop U doc elements acc = acc @ filter meaningful (built U doc elements)"
proof (induction elements arbitrary: acc)
  case Nil
  show ?case by (simp add: built_def)
next
  case (Cons e rest)
  have step: "built U doc (e # rest)
      = (case parse_review U doc e of Inl _ \<Rightarrow> [] | Inr r \<Rightarrow> [r]) @ built U doc rest"
    by (simp add: built_def)
  show ?case
    by (cases "parse_review U doc e") (simp_all add: step Cons.IH)
qed




lemma and_thenE:
  assumes "and_then m f = Inr r"
  obtains v where "m = Inr v" and "f v = Inr r"
  using assms by (cases m) (simp_all add: and_then_def)

lemma el_find_node:
  "el_find (node cs) sel = Inr (case map_of cs sel of Some es \<Rightarrow> es | None \<Rightarrow> [])"
  by (simp add: node_def)

lemma el_attr_node: "el_attr (node cs) a = Inr None"
  by (simp add: node_def)

lemma safe_find_element_name:
  "safe_find_element doc sel = Inr v \<Longrightarrow>
   (case v of Some e \<Rightarrow> safe_get_text (Some e) | None \<Rightarrow> a)
     = (case find_element doc sel of Inr e \<Rightarrow> safe_get_text (Some e) | Inl _ \<Rightarrow> a)"
  by (auto simp: safe_find_element_def wait_presence_def split: sum.splits if_splits)

lemma reviewer_name_of_parse:
  assumes "parse_review U doc e = Inr r"
  shows "reviewer_name r = page_reviewer_name doc"
proof -
  from assms obtain v where v: "safe_find_element doc ''.a-profile-name'' = Inr v"
    and name: "reviewer_name r
      = (case v of Some e \<Rightarrow> safe_get_text (Some e) | None \<Rightarrow> u ''Anonymous'')"
    unfolding parse_review_def Let_def
    by (elim and_thenE) auto
  show ?thesis
    unfolding page_reviewer_name_def name
    by (rule safe_find_element_name [OF v])
qed

lemma parse_review_needs_date:
  assumes "find_element e ''[data-hook='review-date']'' = Inl x"
  shows "\<exists>y. parse_review U doc e = Inl y"
proof (cases "parse_review U doc e")
  case (Inl y)
  then show ?thesis by blast
next
  case (Inr r)
  then obtain d where "find_element e ''[data-hook='review-date']'' = Inr d"
    unfolding parse_review_def Let_def
    by (elim and_thenE) auto
  with assms show ?thesis by simp
qed

lemma retained_is_built:
  assumes "r \<in> set (extract_reviews_from_page U doc)"
  shows "\<exists>e. parse_review U doc e = Inr r"
proof -
  from assms obtain els where "r \<in> set (reviews_loop U doc els [])"
    by (auto simp: extract_reviews_from_page_def split: if_splits sum.splits)
  then have "r \<in> set (built U doc els)"
    by (simp add: reviews_loop_filter)
  then show ?thesis
    by (auto simp: built_def split: sum.splits)
qed

lemma carol_parsed: "parse_review ascii_ucd two_reviews_page carol = Inr carol_review"
  by (simp add: parse_review_def and_then_def safe_find_element_def wait_presence_def
        find_element_def two_reviews_page_def carol_def carol_review_def review_node_def
        el_find_node el_attr_node leaf_def strip_def isspace_def u_def search_digits_def
        py_int_def isdigit_def ascii_ucd_def)

lemma carol_retained:
  "carol_review \<in> set (extract_reviews_from_page ascii_ucd two_reviews_page)"
proof -
  have m: "meaningful carol_review"
    by (simp add: meaningful_def carol_review_def strip_def isspace_def u_def)
  have els: "el_find two_reviews_page ''[data-hook='review']'' = Inr [bob, carol]"
    by (simp add: two_reviews_page_def el_find_node)
  have w: "wait_for_reviews_to_load two_reviews_page"
    by (simp add: wait_for_reviews_to_load_def wait_presence_def find_element_def els)
  have "carol_review \<in> set (built ascii_ucd two_reviews_page [bob, carol])"
    by (simp add: built_def carol_parsed)
  with m show ?thesis
    by (simp add: extract_reviews_from_page_def w els reviews_loop_filter)
qed

text \<open>
  C10. All records that the extractor retains from one page carry the same reviewer
  name: the name is looked up in the whole document, not in the review node, so each
  record has the text of the document's first \<open>.a-profile-name\<close> node, or \<open>Anonymous\<close>
  when the document has none.
\<close>

theorem reviewer_name_page_global:
  "r \<in> set (extract_reviews_from_page U doc) \<Longrightarrow> reviewer_name r = page_reviewer_name doc"
  using retained_is_built reviewer_name_of_parse by blast

theorem reviewer_name_page_global_witness:
  "carol_review \<in> set (extract_reviews_from_page ascii_ucd two_reviews_page)
   \<and> reviewer_name carol_review = page_reviewer_name two_reviews_page
   \<and> reviewer_name carol_review = u ''Bob''"
  using reviewer_name_page_global [OF carol_retained] carol_retained
  by (simp add: carol_review_def)

text \<open>
  C2. A review node without a date element, with a body of 22 characters: the lookup of
  the date raises, the exception ends the processing of the node, and the page yields
  no record at all, rather than one with an empty date.
\<close>

theorem undated_review_dropped:
  "extract_reviews_from_page ascii_ucd undated_review_page = []
   \<and> find_element undated ''[data-hook='review-body'] span''
       = Inr (leaf (u ''Works very well indeed''))
   \<and> length (strip (u ''Works very well indeed'')) = 22"
proof -
  have d: "find_element undated ''[data-hook='review-date']'' = Inl NoSuchElementException"
    by (simp add: find_element_def undated_def review_node_def el_find_node)
  obtain y where p: "parse_review ascii_ucd undated_review_page undated = Inl y"
    using parse_review_needs_date [OF d] by blast
  have els: "el_find undated_review_page ''[data-hook='review']'' = Inr [undated]"
    by (simp add: undated_review_page_def el_find_node)
  have w: "wait_for_reviews_to_load undated_review_page"
    by (simp add: wait_for_reviews_to_load_def wait_presence_def find_element_def els)
  have 1: "extract_reviews_from_page ascii_ucd undated_review_page = []"
    by (simp add: extract_reviews_from_page_def w els p)
  have 2: "find_element undated ''[data-hook='review-body'] span''
       = Inr (leaf (u ''Works very well indeed''))"
    by (simp add: find_element_def undated_def review_node_def el_find_node)
  have 3: "length (strip (u ''Works very well indeed'')) = 22"
    by (simp add: strip_def isspace_def u_def)
  from 1 2 3 show ?thesis by simp
qed

section \<open>Properties of the price parser\<close>

text \<open>
  C4, as the code has it. The currency is that of the first symbol, in the order
  \<open>$\<close>, rupee, pound, euro, that occurs in the price text; a text with none of them
  leaves the currency entry as it was (the empty text that the record starts with), and
  in every case the price is the text with all but digits and full stops removed.
\<close>

theorem currency_by_symbol:
  "set_price U price_text product_data ''price'' = Some (PStr (digits_and_dots U price_text))
   \<and> set_price U price_text product_data ''currency'' =
       (if contains (u ''$'') price_text then Some (PStr (u ''USD''))
        else if contains [8377] price_text then Some (PStr (u ''INR''))
        else if contains [163] price_text then Some (PStr (u ''GBP''))
        else if contains [8364] price_text then Some (PStr (u ''EUR''))
        else product_data ''currency'')"
  by (simp add: set_price_def)

text \<open>
  C4, as stated, fails: on a price text without a currency symbol the currency of the
  record is the empty text, not \<open>UNKNOWN\<close>.
\<close>

theorem currency_unknown_counterexample:
  "extract_price_info ascii_ucd bare_price_page (new_product_data (u ''https://www.amazon.in/dp/B0123ABCDE''))
     = Inr ((new_product_data (u ''https://www.amazon.in/dp/B0123ABCDE''))(''price'' \<mapsto> PStr (u ''1299'')))
   \<and> ((new_product_data (u ''https://www.amazon.in/dp/B0123ABCDE''))(''price'' \<mapsto> PStr (u ''1299'')))
        ''currency'' = Some (PStr [])
   \<and> PStr [] \<noteq> PStr (u ''UNKNOWN'')"
proof -
  have t: "safe_find_element bare_price_page ''.a-price-whole'' = Inr (Some (leaf (u ''1299'')))"
    by (simp add: safe_find_element_def wait_presence_def find_element_def bare_price_page_def
          el_find_node)
  have s: "safe_get_text (Some (leaf (u ''1299''))) = u ''1299''"
    by (simp add: leaf_def strip_def isspace_def u_def)
  have p: "set_price ascii_ucd (u ''1299'') pd = pd(''price'' \<mapsto> PStr (u ''1299''))" for pd
    by (simp add: set_price_def startswith_def digits_and_dots_def isdigit_def ascii_ucd_def u_def)
  have ne: "u ''1299'' \<noteq> []"
    by (simp add: u_def)
  have 1: "extract_price_info ascii_ucd bare_price_page pd
      = Inr (pd(''price'' \<mapsto> PStr (u ''1299'')))" for pd
    by (simp add: extract_price_info_def price_selectors_def t s p ne Let_def
          del: safe_get_text.simps)
  have 2: "((new_product_data w)(''price'' \<mapsto> PStr (u ''1299''))) ''currency'' = Some (PStr [])" for w
    by (simp add: new_product_data_def)
  have 3: "PStr [] \<noteq> PStr (u ''UNKNOWN'')"
    by (simp add: u_def)
  from 1 2 3 show ?thesis by blast
qed

section \<open>Properties of the identifier extraction\<close>



















section \<open>Properties of navigation\<close>















section \<open>Properties of pagination\<close>

lemma scraped_pages_append: "scraped_pages (l @ l') = scraped_pages l @ scraped_pages l'"
  by (induction l rule: scraped_pages.induct) simp_all

lemma load_scraped: "scraped_pages (log (snd (load web r b))) = scraped_pages (log b)"
  by (simp add: load_def Let_def scraped_pages_append split: sum.splits)

lemma ethical_delay_scraped:
  "scraped_pages (log (ethical_delay S lo hi b)) = scraped_pages (log b)"
  by (simp add: ethical_delay_def scraped_pages_append)

lemma next_page_scraped:
  "scraped_pages (log (snd (next_page S web b))) = scraped_pages (log b)"
proof -
  have "scraped_pages (log b1) = scraped_pages (log b)" if "load web Click b = (x, b1)" for x b1
    using load_scraped [of web Click b] that by simp
  then show ?thesis
    by (auto simp: next_page_def ethical_delay_scraped
          split: sum.splits option.splits prod.splits if_splits)
qed

text \<open>The pages on which extraction starts are consecutive and at most max_pages.\<close>

lemma pages_from_bounded:
  "\<exists>k. k \<le> nat (max_pages + 1 - page) \<and>
       scraped_pages (log (snd (pages_from S U web max_pages page b rs)))
         = scraped_pages (log b) @ map (\<lambda>i. page + int i) [0..<k]"
proof (induction S U web max_pages page b rs rule: pages_from.induct)
  case (1 S U web max_pages page b rs)
  show ?case
  proof (cases "page \<le> max_pages")
    case False
    have "pages_from S U web max_pages page b rs = (rs, b)"
      using False by (simp add: pages_from.simps [of S U web max_pages page b rs])
    then show ?thesis
      by (intro exI [of _ 0]) simp
  next
    case True
    define b0 where "b0 = b\<lparr> log := log b @ [Scraping page] \<rparr>"
    define rs' where "rs' = rs @ extract_reviews_from_page U (document (shown b0))"
    obtain c b1 where np: "next_page S web b0 = (c, b1)"
      by (cases "next_page S web b0")
    have b1: "scraped_pages (log b1) = scraped_pages (log b) @ [page]"
      using next_page_scraped [of S web b0] np
      by (simp add: b0_def scraped_pages_append)
    show ?thesis
    proof (cases c)
      case False
      have "pages_from S U web max_pages page b rs = (rs', b1)"
        using True np False
        by (simp add: pages_from.simps [of S U web max_pages page b rs] Let_def b0_def rs'_def)
      then show ?thesis
        using True b1 by (intro exI [of _ 1]) simp
    next
      case c: True
      have step: "pages_from S U web max_pages page b rs
          = pages_from S U web max_pages (page + 1) b1 rs'"
        using True np c
        by (simp add: pages_from.simps [of S U web max_pages page b rs] Let_def b0_def rs'_def)
      have ct: "c = True"
        using c by simp
      from "1.IH" [OF True b0_def rs'_def np [symmetric] ct]
      obtain k where k: "k \<le> nat (max_pages + 1 - (page + 1))"
        "scraped_pages (log (snd (pages_from S U web max_pages (page + 1) b1 rs')))
           = scraped_pages (log b1) @ map (\<lambda>i. page + 1 + int i) [0..<k]"
        by blast
      have "map (\<lambda>i. page + int i) [0..<Suc k]
          = page # map (\<lambda>i. page + 1 + int i) [0..<k]"
        by (simp add: upt_conv_Cons map_Suc_upt [symmetric] del: upt_Suc)
      then show ?thesis
        using k b1 True unfolding step
        by (intro exI [of _ "Suc k"]) simp
    qed
  qed
qed

lemma ethical_delay_shown: "shown (ethical_delay S lo hi b) = shown b"
  by (simp add: ethical_delay_def)

lemma anti_bot_shown: "shown (handle_anti_bot_measures S U b) = shown b"
  by (auto simp: handle_anti_bot_measures_def sleep_def ethical_delay_def Let_def
        split: sum.splits)

lemma anti_bot_scraped:
  "scraped_pages (log (handle_anti_bot_measures S U b)) = scraped_pages (log b)"
  by (auto simp: handle_anti_bot_measures_def sleep_def ethical_delay_def Let_def
        scraped_pages_append split: sum.splits)

lemma attempt_scraped:
  "scraped_pages (log (snd (navigation_attempt S U web url b))) = scraped_pages (log b)"
  by (auto simp: navigation_attempt_def load_def Let_def scraped_pages_append
        ethical_delay_scraped anti_bot_scraped split: sum.splits prod.splits)

lemma navigate_from_scraped:
  "scraped_pages (log (snd (navigate_from S U web url a b))) = scraped_pages (log b)"
proof (induction S U web url a b rule: navigate_from.induct)
  case (1 S U web url a b)
  obtain x b1 where att: "navigation_attempt S U web url b = (x, b1)"
    by (cases "navigation_attempt S U web url b")
  have b1: "scraped_pages (log b1) = scraped_pages (log b)"
    using attempt_scraped [of S U web url b] att by simp
  show ?case
  proof (cases "a < MAX_RETRIES S")
    case False
    then show ?thesis
      by (simp add: navigate_from.simps [of S U web url a b])
  next
    case True
    show ?thesis
    proof (cases x)
      case (Inr v)
      then show ?thesis
        using True att b1 by (simp add: navigate_from.simps [of S U web url a b])
    next
      case (Inl e)
      show ?thesis
      proof (cases "a < MAX_RETRIES S - 1")
        case False
        then show ?thesis
          using True att b1 Inl by (simp add: navigate_from.simps [of S U web url a b])
      next
        case again: True
        have "scraped_pages (log (snd (navigate_from S U web url (a + 1) (sleep ((a + 1) * 2) b1))))
            = scraped_pages (log (sleep ((a + 1) * 2) b1))"
          using "1.IH" [OF True att [symmetric] Inl again] .
        then show ?thesis
          using True att b1 Inl again
          by (simp add: navigate_from.simps [of S U web url a b] sleep_def scraped_pages_append)
      qed
    qed
  qed
qed

lemma details_scraped:
  "scraped_pages (log (snd (extract_product_details S U probe web url b)))
     = scraped_pages (log b)"
proof -
  have "scraped_pages (log b1) = scraped_pages (log b)" if "load web r b = (x, b1)" for r x b1
    using load_scraped [of web r b] that by simp
  then show ?thesis
    by (auto simp: extract_product_details_def Let_def ethical_delay_scraped
          split: sum.splits prod.splits)
qed

text \<open>On the endless listing every visit is followed by another page.\<close>

lemma endless_next:
  "shown b = listing_page \<Longrightarrow>
   fst (next_page S endless_web b) \<and> shown (snd (next_page S endless_web b)) = listing_page"
proof -
  assume s: "shown b = listing_page"
  have f: "safe_find_element (document listing_page) ''li.a-last a''
      = Inr (Some (link (u ''a-link'')))"
    by (simp add: safe_find_element_def wait_presence_def find_element_def listing_page_def
          el_find_node)
  have c: "el_attr (link (u ''a-link'')) ''class'' = Inr (Some (u ''a-link''))"
    by (simp add: link_def)
  have d: "\<not> contains (u ''a-disabled'') (u ''a-link'')"
    by (simp add: u_def startswith_def)
  show ?thesis
    by (simp add: next_page_def s f c d load_def endless_web_def Let_def ethical_delay_shown)
qed

lemma endless_pages:
  "shown b = listing_page \<Longrightarrow>
   scraped_pages (log (snd (pages_from S U endless_web max_pages page b rs)))
     = scraped_pages (log b) @ map (\<lambda>i. page + int i) [0..<nat (max_pages + 1 - page)]"
proof (induction S U endless_web max_pages page b rs rule: pages_from.induct)
  case (1 S U max_pages page b rs)
  show ?case
  proof (cases "page \<le> max_pages")
    case False
    then show ?thesis
      by (simp add: pages_from.simps [of S U endless_web max_pages page b rs])
  next
    case True
    define b0 where "b0 = b\<lparr> log := log b @ [Scraping page] \<rparr>"
    define rs' where "rs' = rs @ extract_reviews_from_page U (document (shown b0))"
    have s0: "shown b0 = listing_page"
      using "1.prems" by (simp add: b0_def)
    obtain c b1 where np: "next_page S endless_web b0 = (c, b1)"
      by (cases "next_page S endless_web b0")
    have c: "c = True" and s1: "shown b1 = listing_page"
      using endless_next [OF s0, of S] np by simp_all
    have b1: "scraped_pages (log b1) = scraped_pages (log b) @ [page]"
      using next_page_scraped [of S endless_web b0] np
      by (simp add: b0_def scraped_pages_append)
    have step: "pages_from S U endless_web max_pages page b rs
        = pages_from S U endless_web max_pages (page + 1) b1 rs'"
      using True np c
      by (simp add: pages_from.simps [of S U endless_web max_pages page b rs] Let_def
            b0_def rs'_def)
    have n: "nat (max_pages + 1 - page) = Suc (nat (max_pages + 1 - (page + 1)))"
      using True by simp
    have m: "map (\<lambda>i. page + int i) [0..<Suc k] = page # map (\<lambda>i. page + 1 + int i) [0..<k]" for k
      by (simp add: upt_conv_Cons map_Suc_upt [symmetric] del: upt_Suc)
    from "1.hyps" [OF True b0_def rs'_def np [symmetric] c s1] show ?thesis
      unfolding step n m by (simp add: b1)
  qed
qed

lemma details_returns: "\<exists>d. fst (extract_product_details S U probe web url b) = Inr d"
proof (cases "load web (Get (case probe url of Inr f \<Rightarrow> f | Inl _ \<Rightarrow> url)) b")
  case (Pair x b1)
  then show ?thesis
    by (cases x; cases "probe url")
       (simp_all add: extract_product_details_def resolve_short_url_def Let_def
          del: run_steps.simps)
qed

lemma collect_returns: "\<exists>rv. fst (collect_customer_reviews S U web url max_pages b) = Inr rv"
  by (simp add: collect_customer_reviews_def split: option.splits prod.splits bool.splits)

lemma endless_navigate:
  assumes "0 < MAX_RETRIES S"
  shows "fst (navigate_with_retry S U endless_web url b)
         \<and> shown (snd (navigate_with_retry S U endless_web url b)) = listing_page"
proof -
  have h: "handle_dynamic_content_loading (document listing_page) = Inr ()"
    by (simp add: handle_dynamic_content_loading_def wait_presence_def find_element_def
          listing_page_def el_find_node)
  have "navigation_attempt S U endless_web url b
      = (Inr (), ethical_delay S None None (handle_anti_bot_measures S U
           (b\<lparr> loads := loads b + 1, log := log b @ [Request (Get url)],
                shown := listing_page \<rparr>)))"
    by (simp add: navigation_attempt_def load_def endless_web_def Let_def h)
  then show ?thesis
    using assms
    by (simp add: navigate_with_retry_def navigate_from.simps [of S U endless_web url 0 b]
          ethical_delay_shown anti_bot_shown)
qed

lemma url_asin:
  "extract_asin p (u ''https://www.amazon.in/dp/B0123ABCDE'') = Some (u ''B0123ABCDE'')"
  by (simp add: extract_asin_def url_asin_patterns_def u_def startswith_def asin_char_def)

lemma endless_collect:
  assumes "0 < MAX_RETRIES S"
  shows "scraped_pages (log (snd (collect_customer_reviews S U endless_web
            (u ''https://www.amazon.in/dp/B0123ABCDE'') max_pages b)))
         = scraped_pages (log b) @ map (\<lambda>i. 1 + int i) [0..<nat max_pages]"
proof -
  define target where "target = reviews_url
    (detect_amazon_domain (u ''https://www.amazon.in/dp/B0123ABCDE'')) (u ''B0123ABCDE'')"
  obtain c b1 where nav: "navigate_with_retry S U endless_web target b = (c, b1)"
    by (cases "navigate_with_retry S U endless_web target b")
  have c: "c" and s1: "shown b1 = listing_page"
    using endless_navigate [OF assms, of U target b] nav by simp_all
  have l1: "scraped_pages (log b1) = scraped_pages (log b)"
    using navigate_from_scraped [of S U endless_web target 0 b] nav
    by (simp add: navigate_with_retry_def)
  have ne: "u ''B0123ABCDE'' \<noteq> []"
    by (simp add: u_def)
  obtain rv b2 where pf: "pages_from S U endless_web max_pages 1 b1 [] = (rv, b2)"
    by (cases "pages_from S U endless_web max_pages 1 b1 []")
  have "snd (collect_customer_reviews S U endless_web
            (u ''https://www.amazon.in/dp/B0123ABCDE'') max_pages b) = b2"
    using c by (simp add: collect_customer_reviews_def url_asin ne target_def [symmetric] nav pf)
  moreover have "scraped_pages (log b2)
      = scraped_pages (log b1) @ map (\<lambda>i. 1 + int i) [0..<nat (max_pages + 1 - 1)]"
    using endless_pages [OF s1, of S U max_pages 1 "[]"] pf by simp
  ultimately show ?thesis
    by (simp add: l1)
qed

text \<open>
  C3. With \<open>MAX_PAGES_TO_SCRAPE\<close> configured as 2 and a listing whose "next" link is
  never disabled, a run starts extraction on five pages: the loop is bounded by the
  parameter \<open>max_pages\<close>, which \<open>scrape_product\<close> leaves at its default of 5, and
  the configured bound is not consulted.
\<close>

theorem configured_page_bound_ignored:
  "MAX_PAGES_TO_SCRAPE two_page_settings = 2
   \<and> scraped_pages (log (snd (scrape_product two_page_settings ascii_ucd Inr endless_web
         (u ''https://www.amazon.in/dp/B0123ABCDE'') fresh_browser)))
       = [1, 2, 3, 4, 5]"
proof -
  have r: "0 < MAX_RETRIES two_page_settings"
    by (simp add: two_page_settings_def default_settings_def)
  obtain d b1 where det: "extract_product_details two_page_settings ascii_ucd Inr endless_web
      (u ''https://www.amazon.in/dp/B0123ABCDE'') fresh_browser = (Inr d, b1)"
    using details_returns [of two_page_settings ascii_ucd Inr endless_web
        "u ''https://www.amazon.in/dp/B0123ABCDE''" fresh_browser]
    by (metis prod.collapse)
  have l1: "scraped_pages (log b1) = []"
    using details_scraped [of two_page_settings ascii_ucd Inr endless_web
        "u ''https://www.amazon.in/dp/B0123ABCDE''" fresh_browser] det
    by (simp add: fresh_browser_def)
  obtain rv b2 where col: "collect_customer_reviews two_page_settings ascii_ucd endless_web
      (u ''https://www.amazon.in/dp/B0123ABCDE'') default_max_pages b1 = (Inr rv, b2)"
    using collect_returns [of two_page_settings ascii_ucd endless_web
        "u ''https://www.amazon.in/dp/B0123ABCDE''" default_max_pages b1]
    by (metis prod.collapse)
  have "scraped_pages (log b2) = map (\<lambda>i. 1 + int i) [0..<nat default_max_pages]"
    using endless_collect [OF r, of ascii_ucd default_max_pages b1] col l1 by simp
  also have "\<dots> = [1, 2, 3, 4, 5]"
    by (simp add: default_max_pages_def eval_nat_numeral upt_conv_Cons del: upt_Suc)
  finally have "scraped_pages (log b2) = [1, 2, 3, 4, 5]" .
  then have "scraped_pages (log (snd (scrape_product two_page_settings ascii_ucd Inr endless_web
         (u ''https://www.amazon.in/dp/B0123ABCDE'') fresh_browser))) = [1, 2, 3, 4, 5]"
    by (simp add: scrape_product_def det col)
  moreover have "MAX_PAGES_TO_SCRAPE two_page_settings = 2"
    by (simp add: two_page_settings_def)
  ultimately show ?thesis by simp
qed

section \<open>Properties of the whole run\<close>

lemma name_loop_keeps:
  "name_loop doc sels pd = Inr pd' \<Longrightarrow> k \<noteq> ''name'' \<Longrightarrow> pd' k = pd k"
  by (induction sels)
     (auto split: sum.splits option.splits)

lemma set_price_keeps:
  "k \<noteq> ''price'' \<Longrightarrow> k \<noteq> ''currency'' \<Longrightarrow> set_price U t pd k = pd k"
  by (simp add: set_price_def)

lemma price_loop_keeps:
  "price_loop U doc sels pd = Inr pd' \<Longrightarrow> k \<noteq> ''price'' \<Longrightarrow> k \<noteq> ''currency'' \<Longrightarrow>
   pd' k = pd k"
  by (induction sels)
     (auto simp: Let_def set_price_keeps split: sum.splits option.splits if_splits
        simp del: safe_get_text.simps)

lemma rating_loop_keeps:
  "rating_loop U doc sels pd = Inr pd' \<Longrightarrow> k \<noteq> ''rating'' \<Longrightarrow> pd' k = pd k"
  by (induction sels)
     (auto simp: Let_def split: sum.splits option.splits if_splits
        simp del: safe_get_text.simps safe_get_attribute.simps)

lemma review_count_loop_keeps:
  "review_count_loop U doc sels pd = Inr pd' \<Longrightarrow> k \<noteq> ''review_count'' \<Longrightarrow> pd' k = pd k"
  by (induction sels)
     (auto simp: Let_def split: sum.splits option.splits if_splits
        simp del: safe_get_text.simps)

lemma extend_list_keeps:
  "extend_list key new pd = Inr pd' \<Longrightarrow> k \<noteq> key \<Longrightarrow> pd' k = pd k"
  by (auto simp: extend_list_def split: if_splits option.splits pyval.splits)

lemma features_loop_keeps:
  "features_loop doc sels pd = Inr pd' \<Longrightarrow> k \<noteq> ''features'' \<Longrightarrow> pd' k = pd k"
  by (induction sels)
     (auto split: sum.splits list.splits dest: extend_list_keeps)

lemma seller_info_keeps:
  "extract_seller_info doc pd = Inr pd' \<Longrightarrow> k \<noteq> ''seller_info'' \<Longrightarrow> pd' k = pd k"
  by (auto simp: extract_seller_info_def and_then_def split: sum.splits)

lemma availability_loop_keeps:
  "availability_loop U doc sels pd = Inr pd' \<Longrightarrow> k \<noteq> ''availability'' \<Longrightarrow> pd' k = pd k"
  by (induction sels)
     (auto simp: Let_def split: sum.splits option.splits if_splits
        simp del: safe_get_text.simps)

lemma images_loop_keeps:
  "images_loop doc sels pd = Inr pd' \<Longrightarrow> k \<noteq> ''images'' \<Longrightarrow> pd' k = pd k"
  by (induction sels)
     (auto split: sum.splits list.splits dest: extend_list_keeps)

lemma run_steps_keeps:
  "(\<And>f pd pd'. f \<in> set steps \<Longrightarrow> f pd = Inr pd' \<Longrightarrow> pd' k = pd k) \<Longrightarrow>
   run_steps steps pd k = pd k"
proof (induction steps arbitrary: pd)
  case Nil
  show ?case by simp
next
  case (Cons f rest)
  show ?case
  proof (cases "f pd")
    case (Inl e)
    then show ?thesis by simp
  next
    case (Inr pd')
    have "run_steps rest pd' k = pd' k"
    proof (rule Cons.IH)
      fix g p p'
      assume "g \<in> set rest" and "g p = Inr p'"
      then show "p' k = p k"
        using Cons.prems [of g p p'] by simp
    qed
    moreover have "pd' k = pd k"
      using Cons.prems [of f pd pd'] Inr by simp
    ultimately show ?thesis
      using Inr by simp
  qed
qed

lemma details_steps_keep:
  assumes "untouched k"
  shows "run_steps
           [name_loop doc name_selectors, extract_price_info U doc,
            rating_loop U doc rating_selectors,
            review_count_loop U doc review_count_selectors,
            extract_features doc, extract_seller_info doc,
            extract_availability U doc, extract_images doc] pd k = pd k"
proof (rule run_steps_keeps)
  fix f p p'
  assume "f \<in> set [name_loop doc name_selectors, extract_price_info U doc,
            rating_loop U doc rating_selectors,
            review_count_loop U doc review_count_selectors,
            extract_features doc, extract_seller_info doc,
            extract_availability U doc, extract_images doc]"
    and "f p = Inr p'"
  then show "p' k = p k"
    using assms
    by (auto simp: untouched_def extract_price_info_def extract_features_def
          extract_availability_def extract_images_def
          dest: name_loop_keeps price_loop_keeps rating_loop_keeps review_count_loop_keeps
            features_loop_keeps seller_info_keeps availability_loop_keeps images_loop_keeps)
qed

lemma details_untouched:
  assumes "fst (extract_product_details S U probe web url b) = Inr d" and "untouched k"
  shows "d k = new_product_data (case probe url of Inr f \<Rightarrow> f | Inl _ \<Rightarrow> url) k"
proof -
  define resolved where "resolved = (case probe url of Inr f \<Rightarrow> f | Inl _ \<Rightarrow> url)"
  have r: "resolve_short_url probe url = Inr resolved"
    by (simp add: resolve_short_url_def resolved_def split: sum.splits)
  have a: "k \<noteq> ''asin''"
    using assms(2) by (simp add: untouched_def)
  obtain x b1 where l: "load web (Get resolved) b = (x, b1)"
    by (cases "load web (Get resolved) b")
  show ?thesis
  proof (cases x)
    case (Inl e)
    then show ?thesis
      using assms(1) by (simp add: extract_product_details_def r l resolved_def [symmetric])
  next
    case (Inr v)
    then show ?thesis
      using assms(1) a
      by (auto simp: extract_product_details_def r l Let_def resolved_def [symmetric]
            details_steps_keep [OF assms(2)] simp del: run_steps.simps)
  qed
qed

lemma seller_name_never_set:
  "fst (extract_product_details S U probe web url b) = Inr d \<Longrightarrow>
   d ''seller_name'' = Some (PStr [])"
  by (drule details_untouched [where k = "''seller_name''"])
     (simp_all add: untouched_def new_product_data_def)



text \<open>
  C8. When the page load of the product page raises, the record returned is the initial
  one: its \<open>seller_name\<close> is the empty text, not the sentinel \<open>Amazon\<close>, and it has
  neither the key \<open>seller_info\<close>, under which the sentinel is stored otherwise, nor the
  key \<open>availability\<close>.
\<close>

theorem seller_sentinel_missing:
  "fst (extract_product_details default_settings ascii_ucd no_redirect dead_web
          (u ''https://www.amazon.in/dp/B0123ABCDE'') fresh_browser)
     = Inr (new_product_data (u ''https://www.amazon.in/dp/B0123ABCDE''))
   \<and> new_product_data (u ''https://www.amazon.in/dp/B0123ABCDE'') ''seller_name''
       = Some (PStr [])
   \<and> new_product_data (u ''https://www.amazon.in/dp/B0123ABCDE'') ''seller_info'' = None
   \<and> new_product_data (u ''https://www.amazon.in/dp/B0123ABCDE'') ''availability'' = None"
  by (simp add: extract_product_details_def resolve_short_url_def no_redirect_def load_def
        dead_web_def Let_def new_product_data_def)

lemma exit_code_zero_iff:
  "(fst (main S U W url) = 0 \<longleftrightarrow>
      is_amazon_url U url
      \<and> (\<exists>r. fst (scrape_amazon_product S U W url) = Some r \<and> reviews r \<noteq> []))
   \<and> (fst (main S U W url) = 0 \<or> fst (main S U W url) = 1)"
  by (cases "scrape_amazon_product S U W url"; cases "fst (scrape_amazon_product S U W url)")
     (auto simp: main_def)

lemma ikea_host: "url_host ikea_url = u ''www.ikea.com''"
  by (simp add: url_host_def ikea_url_def u_def startswith_def)

lemma ikea_not_listed: "\<not> domain_on_allow_list ascii_ucd ikea_url"
  unfolding domain_on_allow_list_def ikea_host
  by (simp add: amazon_domains_def ascii_ucd_def u_def endswith_def)

lemma ikea_passes: "is_amazon_url ascii_ucd ikea_url"
  by (simp add: is_amazon_url_def amazon_domains_def ascii_ucd_def ikea_url_def u_def
        startswith_def)

lemma ikea_no_asin: "extract_asin blank_page ikea_url = None"
  by (simp add: extract_asin_def url_asin_patterns_def ikea_url_def u_def startswith_def
        extract_asin_from_page_def blank_page_def)

lemma ikea_details:
  "extract_product_details default_settings ascii_ucd no_redirect dead_web ikea_url fresh_browser
     = (Inr (new_product_data ikea_url),
        \<lparr> shown = blank_page, loads = Suc 0, log = [Request (Get ikea_url)] \<rparr>)"
  by (simp add: extract_product_details_def resolve_short_url_def no_redirect_def load_def
        dead_web_def Let_def fresh_browser_def)

text \<open>
  C9. The URL \<open>https://www.ikea.com/p/x\<close> has the host \<open>www.ikea.com\<close>, which is on no
  allow-list, but it contains the text \<open>a.co\<close>, so the check of \<open>main\<close> lets it pass:
  the browser is started and asked to load the URL. The run ends with exit code 1 only
  because it collects no review.
\<close>

theorem foreign_domain_is_scraped:
  "\<not> domain_on_allow_list ascii_ucd ikea_url
   \<and> is_amazon_url ascii_ucd ikea_url
   \<and> main default_settings ascii_ucd offline ikea_url = (1, [Request (Get ikea_url)])"
proof -
  have c: "collect_customer_reviews default_settings ascii_ucd dead_web ikea_url default_max_pages
      \<lparr> shown = blank_page, loads = Suc 0, log = [Request (Get ikea_url)] \<rparr>
      = (Inr [], \<lparr> shown = blank_page, loads = Suc 0, log = [Request (Get ikea_url)] \<rparr>)"
    by (simp add: collect_customer_reviews_def ikea_no_asin)
  have "scrape_amazon_product default_settings ascii_ucd offline ikea_url
      = (Some \<lparr> product_details = new_product_data ikea_url, reviews = [],
                 total_reviews_scraped = 0 \<rparr>, [Request (Get ikea_url)])"
    by (simp add: scrape_amazon_product_def offline_def scrape_product_def ikea_details c)
  then have "main default_settings ascii_ucd offline ikea_url = (1, [Request (Get ikea_url)])"
    by (simp add: main_def ikea_passes)
  with ikea_not_listed ikea_passes show ?thesis by simp
qed

end
